theory Spec2Isabelle
  imports Main "HOL-Library.Char_ord" "HOL-Library.List_Lexorder"
begin

section \<open>Customer service: request handlers over an SQLite store\<close>

text \<open>
  The server is one Express application over one SQLite connection. Each route handler
  becomes a function from the database and the request to a response and the new
  database. Text is modelled as a list of 8-bit characters read as ASCII. A query
  parameter or a body field is \<open>None\<close> when it is absent and \<open>Some s\<close> when it is the
  string \<open>s\<close>; a route parameter \<open>:id\<close> is the integer that SQLite's INTEGER affinity
  compares with the \<open>id\<close> column.
\<close>

subsection \<open>Strings\<close>

definition is_space :: "char \<Rightarrow> bool" where
  \<comment> \<open>the ASCII members of the regular expression class \<open>\s\<close>\<close>
  "is_space c = (c \<in> set [CHR 0x09, CHR 0x0A, CHR 0x0B, CHR 0x0C, CHR 0x0D, CHR 0x20])"

definition trim :: "string \<Rightarrow> string" where
  "trim s = rev (dropWhile is_space (rev (dropWhile is_space s)))"

definition lower_letters :: string where
  "lower_letters = ''abcdefghijklmnopqrstuvwxyz''"

definition upper_letters :: string where
  "upper_letters = ''ABCDEFGHIJKLMNOPQRSTUVWXYZ''"

definition toUpperCase_char :: "char \<Rightarrow> char" where
  "toUpperCase_char c =
     (case map_of (zip lower_letters upper_letters) c of None \<Rightarrow> c | Some u \<Rightarrow> u)"

definition toLowerCase_char :: "char \<Rightarrow> char" where
  "toLowerCase_char c =
     (case map_of (zip upper_letters lower_letters) c of None \<Rightarrow> c | Some l \<Rightarrow> l)"

definition toUpperCase :: "string \<Rightarrow> string" where
  "toUpperCase s = map toUpperCase_char s"

definition toLowerCase :: "string \<Rightarrow> string" where
  "toLowerCase s = map toLowerCase_char s"

fun split_on :: "char \<Rightarrow> string \<Rightarrow> string list" where
  \<comment> \<open>\<open>s.split(sep)\<close> for a one-character separator: never the empty list\<close>
  "split_on sep [] = [[]]"
| "split_on sep (c # cs) =
     (if c = sep then [] # split_on sep cs
      else (case split_on sep cs of
              [] \<Rightarrow> [[c]]
            | p # ps \<Rightarrow> (c # p) # ps))"

fun startsWith :: "string \<Rightarrow> string \<Rightarrow> bool" where
  "startsWith s [] = True"
| "startsWith [] (p # ps) = False"
| "startsWith (c # cs) (p # ps) = (c = p \<and> startsWith cs ps)"

fun includes_str :: "string \<Rightarrow> string \<Rightarrow> bool" where
  \<comment> \<open>\<open>s.includes(p)\<close>\<close>
  "includes_str [] p = startsWith [] p"
| "includes_str (c # cs) p = (startsWith (c # cs) p \<or> includes_str cs p)"

fun join :: "string \<Rightarrow> string list \<Rightarrow> string" where
  \<comment> \<open>\<open>parts.join(sep)\<close>\<close>
  "join sep [] = []"
| "join sep [p] = p"
| "join sep (p # q # ps) = p @ sep @ join sep (q # ps)"

subsection \<open>Numbers\<close>

text \<open>
  The numbers of the list handler are doubles that come from \<open>parseInt\<close>, a subtraction
  of 1 and a product: each is NaN, an infinity, or a finite double whose value is an
  integer. \<open>Infinite\<close> stands for both infinities: neither binds as an integer, and
  nothing else in the handler looks at the sign.
\<close>

datatype number = NaN | Num int | Infinite

function bit_length :: "int \<Rightarrow> nat" where
  \<comment> \<open>the number of binary digits of a positive integer\<close>
  "bit_length n = (if n \<le> 0 then 0 else Suc (bit_length (n div 2)))"
  by pat_completeness auto
termination
  by (relation "measure nat") auto

declare bit_length.simps [simp del]

definition to_double :: "int \<Rightarrow> number" where
  \<comment> \<open>the double nearest to an integer, ties to the even significand of 53 bits; beyond
      the largest double the result is an infinity\<close>
  "to_double n =
     (let m = \<bar>n\<bar>;
          e = bit_length m
      in if e \<le> 53 then Num n
         else
           (let ulp = 2 ^ (e - 53);
                q = m div ulp;
                r = m mod ulp;
                q' = (if ulp < 2 * r \<or> (2 * r = ulp \<and> odd q) then q + 1 else q);
                v = q' * ulp
            in if 2 ^ 1024 \<le> v then Infinite else Num (sgn n * v)))"

definition js_minus_one :: "number \<Rightarrow> number" where
  \<comment> \<open>\<open>x - 1\<close>\<close>
  "js_minus_one x = (case x of Num a \<Rightarrow> to_double (a - 1) | NaN \<Rightarrow> NaN | Infinite \<Rightarrow> Infinite)"

fun js_times :: "number \<Rightarrow> number \<Rightarrow> number" where
  \<comment> \<open>\<open>x * y\<close>\<close>
  "js_times (Num a) (Num b) = to_double (a * b)"
| "js_times NaN y = NaN"
| "js_times x NaN = NaN"
| "js_times Infinite (Num b) = (if b = 0 then NaN else Infinite)"
| "js_times (Num a) Infinite = (if a = 0 then NaN else Infinite)"
| "js_times Infinite Infinite = Infinite"

definition limit_value :: "number \<Rightarrow> int option" where
  \<comment> \<open>a number bound to the placeholder of LIMIT or OFFSET: sqlite3 binds a number of the
      32-bit range as INTEGER and any other as REAL (NaN as NULL), and SQLite takes an
      INTEGER, or a REAL that converts to a 64-bit integer without loss and is neither the
      least nor the greatest of them; on anything else the statement fails with
      \<open>datatype mismatch\<close>, here \<open>None\<close>\<close>
  "limit_value x =
     (case x of
        Num v \<Rightarrow> if - (2 ^ 63) < v \<and> v < 2 ^ 63 then Some v else None
      | NaN \<Rightarrow> None
      | Infinite \<Rightarrow> None)"

subsection \<open>parseInt\<close>

definition digit_value :: "char \<Rightarrow> nat option" where
  "digit_value c =
     (let n = (of_char c :: nat) in
      if 48 \<le> n \<and> n \<le> 57 then Some (n - 48)
      else if 97 \<le> n \<and> n \<le> 102 then Some (n - 87)
      else if 65 \<le> n \<and> n \<le> 70 then Some (n - 55)
      else None)"

definition is_digit :: "nat \<Rightarrow> char \<Rightarrow> bool" where
  "is_digit radix c = (case digit_value c of None \<Rightarrow> False | Some d \<Rightarrow> d < radix)"

definition digits_value :: "nat \<Rightarrow> string \<Rightarrow> int" where
  "digits_value radix ds = foldl (\<lambda>acc c. acc * int radix + int (the (digit_value c))) 0 ds"

definition parse_digits :: "nat \<Rightarrow> string \<Rightarrow> int option" where
  \<comment> \<open>the longest prefix of radix digits; NaN (\<open>None\<close>) when it is empty\<close>
  "parse_digits radix s =
     (let z = takeWhile (is_digit radix) s in
      if z = [] then None else Some (digits_value radix z))"

definition parseInt :: "string \<Rightarrow> number" where
  \<comment> \<open>\<open>parseInt(s)\<close> with no radix argument: the double nearest to the integer the digits
      write, NaN when there is no digit\<close>
  "parseInt s =
     (let t = dropWhile is_space s;
          neg = (t \<noteq> [] \<and> hd t = CHR ''-'');
          u = (if t \<noteq> [] \<and> (hd t = CHR ''-'' \<or> hd t = CHR ''+'') then tl t else t);
          r = (if startsWith u ''0x'' \<or> startsWith u ''0X''
               then parse_digits 16 (drop 2 u) else parse_digits 10 u)
      in case r of None \<Rightarrow> NaN | Some v \<Rightarrow> to_double (if neg then - v else v))"

definition parseInt_param :: "string option \<Rightarrow> number" where
  \<comment> \<open>an absent parameter is \<open>undefined\<close>, which \<open>parseInt\<close> first turns into a string\<close>
  "parseInt_param p = (case p of None \<Rightarrow> parseInt ''undefined'' | Some s \<Rightarrow> parseInt s)"

definition or_default :: "number \<Rightarrow> number \<Rightarrow> number" where
  \<comment> \<open>\<open>n || d\<close> on a number: NaN and 0 are falsy\<close>
  "or_default n d =
     (case n of NaN \<Rightarrow> d | Num v \<Rightarrow> if v = 0 then d else Num v | Infinite \<Rightarrow> Infinite)"

definition or_empty :: "string option \<Rightarrow> string \<Rightarrow> string" where
  \<comment> \<open>\<open>s || d\<close> on a string: \<open>undefined\<close> and the empty string are falsy\<close>
  "or_empty s d = (case s of None \<Rightarrow> d | Some v \<Rightarrow> if v = [] then d else v)"

subsection \<open>Data model\<close>

text \<open>
  The two tables of \<open>initSql\<close>. Every column is NOT NULL; \<open>phone_number\<close> is UNIQUE;
  \<open>customer_id\<close> references \<open>customers(id)\<close> with ON DELETE CASCADE.
\<close>

record customer =
  c_id :: int
  first_name :: string
  last_name :: string
  phone_number :: string

record address =
  a_id :: int
  customer_id :: int
  address_details :: string
  city :: string
  state :: string
  pin_code :: string

text \<open>
  The state of the connection \<open>db\<close>: the rows of both tables in rowid order, the
  AUTOINCREMENT counters of \<open>sqlite_sequence\<close>, and the connection's
  \<open>PRAGMA foreign_keys\<close> setting, on which SQLite makes every foreign-key action depend.
\<close>

record database =
  customers :: "customer list"
  addresses :: "address list"
  customers_seq :: int
  addresses_seq :: int
  foreign_keys :: bool

subsection \<open>Responses\<close>

record meta =
  m_page :: number
  m_limit :: number
  m_total :: int

datatype body =
    Message string
  | ValidationErrors "(string \<times> string) list"
  | CustomerData "customer option" string
  | CustomerList "customer list" meta
  | CustomerDetail customer "address list"
  | AddressData "address option" string
  | AddressList "address list"

record response =
  status :: nat
  success :: bool
  body :: body

definition internal_error :: response where
  \<comment> \<open>the \<open>catch\<close> branch every handler ends with\<close>
  "internal_error = \<lparr>status = 500, success = False, body = Message ''Internal server error''\<rparr>"

subsection \<open>The statements of the list query\<close>

fun like :: "string \<Rightarrow> string \<Rightarrow> bool" where
  \<comment> \<open>\<open>text LIKE pattern\<close> with no ESCAPE: \<open>%\<close> is any run of characters, \<open>_\<close> any one
      character, every other character matches itself up to ASCII case\<close>
  "like [] [] = True"
| "like [] (c # cs) = False"
| "like (p # ps) [] = (p = CHR ''%'' \<and> like ps [])"
| "like (p # ps) (c # cs) =
     (if p = CHR ''%'' then like ps (c # cs) \<or> like (p # ps) cs
      else (p = CHR ''_'' \<or> toLowerCase_char p = toLowerCase_char c) \<and> like ps cs)"

definition search_sql :: string where
  "search_sql = ''(first_name || ' ' || last_name LIKE ? OR phone_number LIKE ?)''"

definition city_sql :: string where
  "city_sql = ''id IN (SELECT customer_id FROM addresses WHERE city = ?)''"

definition state_sql :: string where
  "state_sql = ''id IN (SELECT customer_id FROM addresses WHERE state = ?)''"

definition pin_code_sql :: string where
  "pin_code_sql = ''id IN (SELECT customer_id FROM addresses WHERE pin_code = ?)''"

fun where_params :: "string list \<Rightarrow> nat option" where
  \<comment> \<open>the number of \<open>?\<close> placeholders of the WHERE fragments; \<open>None\<close> when a fragment
      is not one the engine is modelled on\<close>
  "where_params [] = Some 0"
| "where_params (w # ws) =
     (if w = search_sql then map_option (\<lambda>n. n + 2) (where_params ws)
      else if w = city_sql \<or> w = state_sql \<or> w = pin_code_sql
      then map_option Suc (where_params ws)
      else None)"

fun eval_where :: "database \<Rightarrow> string list \<Rightarrow> string list \<Rightarrow> customer \<Rightarrow> bool" where
  \<comment> \<open>the conjunction of the WHERE fragments on one row, each fragment taking its bound
      parameters from the front of the list; a placeholder left unbound is NULL, and a
      comparison with NULL selects no row\<close>
  "eval_where db [] vs c = True"
| "eval_where db (w # ws) vs c =
     (if w = search_sql then
        (case vs of
           p1 # p2 # rest \<Rightarrow>
             (like p1 (first_name c @ '' '' @ last_name c) \<or> like p2 (phone_number c))
             \<and> eval_where db ws rest c
         | _ \<Rightarrow> False)
      else if w = city_sql then
        (case vs of
           v # rest \<Rightarrow>
             c_id c \<in> set (map customer_id (filter (\<lambda>a. city a = v) (addresses db)))
             \<and> eval_where db ws rest c
         | _ \<Rightarrow> False)
      else if w = state_sql then
        (case vs of
           v # rest \<Rightarrow>
             c_id c \<in> set (map customer_id (filter (\<lambda>a. state a = v) (addresses db)))
             \<and> eval_where db ws rest c
         | _ \<Rightarrow> False)
      else if w = pin_code_sql then
        (case vs of
           v # rest \<Rightarrow>
             c_id c \<in> set (map customer_id (filter (\<lambda>a. pin_code a = v) (addresses db)))
             \<and> eval_where db ws rest c
         | _ \<Rightarrow> False)
      else False)"

definition select_where :: "database \<Rightarrow> string list \<Rightarrow> string list \<Rightarrow> customer list option" where
  \<comment> \<open>the rows of \<open>customers\<close> that pass the WHERE clause, in rowid order; \<open>None\<close> is an
      SQL error: an unknown fragment, or more bound values than placeholders\<close>
  "select_where db ws vs =
     (case where_params ws of
        None \<Rightarrow> None
      | Some n \<Rightarrow>
          if n < length vs then None
          else Some (filter (eval_where db ws vs) (customers db)))"

definition count_customers :: "database \<Rightarrow> string list \<Rightarrow> string list \<Rightarrow> int option" where
  \<comment> \<open>\<open>SELECT COUNT(*) as count FROM customers <where>\<close>\<close>
  "count_customers db ws vs = map_option (\<lambda>rs. int (length rs)) (select_where db ws vs)"

definition sort_rows :: "string \<Rightarrow> ('a \<Rightarrow> 'k::linorder) \<Rightarrow> 'a list \<Rightarrow> 'a list" where
  \<comment> \<open>the sorter on one key: rows with equal keys keep their rowid order in both
      directions\<close>
  "sort_rows dir k rows =
     (if dir = ''DESC'' then rev (sort_key k (rev rows)) else sort_key k rows)"

definition order_by :: "string \<Rightarrow> string \<Rightarrow> customer list \<Rightarrow> customer list option" where
  \<comment> \<open>\<open>ORDER BY <column> <direction>\<close>: integers by value, text bytewise (BINARY
      collation); \<open>None\<close> for a column the table does not have or a direction that is
      no keyword\<close>
  "order_by field dir rows =
     (if dir \<noteq> ''ASC'' \<and> dir \<noteq> ''DESC'' then None
      else if field = ''id'' then Some (sort_rows dir c_id rows)
      else if field = ''first_name'' then Some (sort_rows dir first_name rows)
      else if field = ''last_name'' then Some (sort_rows dir last_name rows)
      else if field = ''phone_number'' then Some (sort_rows dir phone_number rows)
      else None)"

definition limit_offset :: "int \<Rightarrow> int \<Rightarrow> 'a list \<Rightarrow> 'a list" where
  \<comment> \<open>\<open>LIMIT l OFFSET off\<close>: a negative limit is no limit, a negative offset is 0\<close>
  "limit_offset l off rows =
     (let r = drop (if off < 0 then 0 else nat off) rows
      in if l < 0 then r else take (nat l) r)"

definition select_page ::
  "database \<Rightarrow> string list \<Rightarrow> string list \<Rightarrow> string \<Rightarrow> string \<Rightarrow> number \<Rightarrow> number \<Rightarrow>
   customer list option" where
  \<comment> \<open>\<open>SELECT * FROM customers <where> ORDER BY <field> <dir> LIMIT ? OFFSET ?\<close> with the
      two numbers bound last; \<open>None\<close> is an SQL error\<close>
  "select_page db ws vs field dir l off =
     (case (limit_value l, limit_value off) of
        (Some lv, Some ov) \<Rightarrow>
          (case select_where db ws vs of
             None \<Rightarrow> None
           | Some rs \<Rightarrow> map_option (limit_offset lv ov) (order_by field dir rs))
      | _ \<Rightarrow> None)"

subsection \<open>GET /api/customers\<close>

record list_query =
  q_page :: "string option"
  q_limit :: "string option"
  q_search :: "string option"
  q_city :: "string option"
  q_state :: "string option"
  q_pin_code :: "string option"
  q_sort :: "string option"

definition page_of :: "list_query \<Rightarrow> number" where
  "page_of q = or_default (parseInt_param (q_page q)) (Num 1)"

definition limit_of :: "list_query \<Rightarrow> number" where
  "limit_of q = or_default (parseInt_param (q_limit q)) (Num 10)"

definition offset_of :: "list_query \<Rightarrow> number" where
  "offset_of q = js_times (js_minus_one (page_of q)) (limit_of q)"

definition search_of :: "list_query \<Rightarrow> string" where
  "search_of q = or_empty (q_search q) []"

definition city_of :: "list_query \<Rightarrow> string" where
  "city_of q = or_empty (q_city q) []"

definition state_of :: "list_query \<Rightarrow> string" where
  "state_of q = or_empty (q_state q) []"

definition pin_code_of :: "list_query \<Rightarrow> string" where
  "pin_code_of q = or_empty (q_pin_code q) []"

definition sort_of :: "list_query \<Rightarrow> string" where
  "sort_of q = or_empty (q_sort q) ''id:asc''"

definition build_where :: "list_query \<Rightarrow> string list \<times> string list" where
  \<comment> \<open>\<open>whereParts\<close> and \<open>params\<close> after the four \<open>if\<close> statements; a string is truthy
      when it is not empty\<close>
  "build_where q =
     (let (whereParts, params) = ([], []);
          (whereParts, params) =
            (if search_of q \<noteq> [] then
               (whereParts @ [search_sql],
                params @ [''%'' @ search_of q @ ''%'', ''%'' @ search_of q @ ''%''])
             else (whereParts, params));
          (whereParts, params) =
            (if city_of q \<noteq> [] then (whereParts @ [city_sql], params @ [city_of q])
             else (whereParts, params));
          (whereParts, params) =
            (if state_of q \<noteq> [] then (whereParts @ [state_sql], params @ [state_of q])
             else (whereParts, params));
          (whereParts, params) =
            (if pin_code_of q \<noteq> [] then (whereParts @ [pin_code_sql], params @ [pin_code_of q])
             else (whereParts, params))
      in (whereParts, params))"

definition whereSql :: "list_query \<Rightarrow> string" where
  "whereSql q =
     (let whereParts = fst (build_where q)
      in if whereParts \<noteq> [] then ''WHERE '' @ join '' AND '' whereParts else [])"

definition allowedFields :: "string list" where
  "allowedFields = [''first_name'', ''last_name'', ''id'', ''phone_number'']"

definition sort_parts :: "list_query \<Rightarrow> string option \<times> string option" where
  \<comment> \<open>\<open>let [sortField, sortDir] = sort.split(':')\<close>; a missing element is \<open>undefined\<close>\<close>
  "sort_parts q =
     (case split_on CHR '':'' (sort_of q) of
        [] \<Rightarrow> (None, None)
      | [f] \<Rightarrow> (Some f, None)
      | f # d # _ \<Rightarrow> (Some f, Some d))"

definition sortField :: "list_query \<Rightarrow> string" where
  "sortField q =
     (case fst (sort_parts q) of
        None \<Rightarrow> ''id''
      | Some f \<Rightarrow> if f \<in> set allowedFields then f else ''id'')"

definition sortDir :: "list_query \<Rightarrow> string" where
  "sortDir q =
     (case snd (sort_parts q) of
        None \<Rightarrow> ''ASC''
      | Some d \<Rightarrow> if d \<noteq> [] \<and> toUpperCase d = ''DESC'' then ''DESC'' else ''ASC'')"

definition totalSql :: "list_query \<Rightarrow> string" where
  "totalSql q = ''SELECT COUNT(*) as count FROM customers '' @ whereSql q"

definition pageSql :: "list_query \<Rightarrow> string" where
  "pageSql q =
     ''SELECT * FROM customers '' @ whereSql q @ '' ORDER BY '' @ sortField q @ '' ''
       @ sortDir q @ '' LIMIT ? OFFSET ?''"

definition get_customers :: "database \<Rightarrow> list_query \<Rightarrow> response" where
  "get_customers db q =
     (let (whereParts, params) = build_where q
      in case count_customers db whereParts params of
           None \<Rightarrow> internal_error
         | Some total_count \<Rightarrow>
             (case select_page db whereParts params (sortField q) (sortDir q)
                     (limit_of q) (offset_of q) of
                None \<Rightarrow> internal_error
              | Some rows \<Rightarrow>
                  \<lparr>status = 200, success = True,
                   body = CustomerList rows
                            \<lparr>m_page = page_of q, m_limit = limit_of q, m_total = total_count\<rparr>\<rparr>))"

definition matching_customers :: "database \<Rightarrow> list_query \<Rightarrow> customer list" where
  \<comment> \<open>the rows the WHERE clause of a request selects, before ORDER BY and LIMIT\<close>
  "matching_customers db q =
     (case select_where db (fst (build_where q)) (snd (build_where q)) of
        None \<Rightarrow> []
      | Some rs \<Rightarrow> rs)"

definition ordered_customers :: "database \<Rightarrow> list_query \<Rightarrow> customer list" where
  \<comment> \<open>the selected rows after ORDER BY, before LIMIT and OFFSET\<close>
  "ordered_customers db q =
     (case order_by (sortField q) (sortDir q) (matching_customers db q) of
        None \<Rightarrow> []
      | Some rs \<Rightarrow> rs)"

definition data_of :: "response \<Rightarrow> customer list" where
  \<comment> \<open>\<open>res.data\<close> of a list response\<close>
  "data_of r = (case body r of CustomerList rows m \<Rightarrow> rows | _ \<Rightarrow> [])"

definition meta_of :: "response \<Rightarrow> meta option" where
  \<comment> \<open>\<open>res.meta\<close> of a list response\<close>
  "meta_of r = (case body r of CustomerList rows m \<Rightarrow> Some m | _ \<Rightarrow> None)"

subsection \<open>The other statements\<close>

definition unique_error :: string where
  "unique_error = ''SQLITE_CONSTRAINT: UNIQUE constraint failed: customers.phone_number''"

definition foreign_key_error :: string where
  "foreign_key_error = ''SQLITE_CONSTRAINT: FOREIGN KEY constraint failed''"

definition syntax_error :: string where
  "syntax_error = ''SQLITE_ERROR: syntax error''"

definition open_database :: database where
  \<comment> \<open>the connection after \<open>new sqlite3.Database(DB_PATH)\<close> and \<open>db.exec(initSql)\<close> on a
      new file: both tables empty, and \<open>foreign_keys\<close> at the value SQLite gives every new
      connection; no statement of the server is a PRAGMA\<close>
  "open_database =
     \<lparr>customers = [], addresses = [], customers_seq = 0, addresses_seq = 0,
      foreign_keys = False\<rparr>"

definition next_rowid :: "int \<Rightarrow> int list \<Rightarrow> int" where
  \<comment> \<open>AUTOINCREMENT: one more than the largest rowid the table has ever held\<close>
  "next_rowid seq ids = fold max ids seq + 1"

definition insert_customer_sql ::
  "database \<Rightarrow> string \<Rightarrow> string \<Rightarrow> string \<Rightarrow> string + (int \<times> database)" where
  \<comment> \<open>\<open>INSERT INTO customers (first_name, last_name, phone_number) VALUES (?,?,?)\<close>\<close>
  "insert_customer_sql db f l p =
     (if p \<in> set (map phone_number (customers db)) then Inl unique_error
      else
        (let i = next_rowid (customers_seq db) (map c_id (customers db))
         in Inr (i, db\<lparr>customers :=
                        customers db @
                          [\<lparr>c_id = i, first_name = f, last_name = l, phone_number = p\<rparr>],
                      customers_seq := i\<rparr>)))"

definition insert_address_sql ::
  "database \<Rightarrow> int \<Rightarrow> string \<Rightarrow> string \<Rightarrow> string \<Rightarrow> string \<Rightarrow> string + (int \<times> database)" where
  \<comment> \<open>\<open>INSERT INTO addresses (customer_id, address_details, city, state, pin_code)
      VALUES (?,?,?,?,?)\<close>\<close>
  "insert_address_sql db cid d c s p =
     (if foreign_keys db \<and> cid \<notin> set (map c_id (customers db)) then Inl foreign_key_error
      else
        (let i = next_rowid (addresses_seq db) (map a_id (addresses db))
         in Inr (i, db\<lparr>addresses :=
                        addresses db @
                          [\<lparr>a_id = i, customer_id = cid, address_details = d, city = c,
                            state = s, pin_code = p\<rparr>],
                      addresses_seq := i\<rparr>)))"

definition get_customer_sql :: "database \<Rightarrow> int \<Rightarrow> customer option" where
  \<comment> \<open>\<open>SELECT * FROM customers WHERE id = ?\<close>\<close>
  "get_customer_sql db i = find (\<lambda>c. c_id c = i) (customers db)"

definition get_address_sql :: "database \<Rightarrow> int \<Rightarrow> address option" where
  \<comment> \<open>\<open>SELECT * FROM addresses WHERE id = ?\<close>\<close>
  "get_address_sql db i = find (\<lambda>a. a_id a = i) (addresses db)"

definition addresses_of_sql :: "database \<Rightarrow> int \<Rightarrow> address list" where
  \<comment> \<open>\<open>SELECT * FROM addresses WHERE customer_id = ?\<close>\<close>
  "addresses_of_sql db i = filter (\<lambda>a. customer_id a = i) (addresses db)"

fun set_customer :: "string list \<Rightarrow> string list \<Rightarrow> customer \<Rightarrow> customer option" where
  \<comment> \<open>the SET list of an UPDATE on one row, each assignment with its bound value; \<open>None\<close>
      when the list is no SET list over the table's columns\<close>
  "set_customer [] vs c = Some c"
| "set_customer (u # us) [] c = None"
| "set_customer (u # us) (v # vs) c =
     (if u = ''first_name = ?'' then set_customer us vs (c\<lparr>first_name := v\<rparr>)
      else if u = ''last_name = ?'' then set_customer us vs (c\<lparr>last_name := v\<rparr>)
      else if u = ''phone_number = ?'' then set_customer us vs (c\<lparr>phone_number := v\<rparr>)
      else None)"

definition update_customer_sql ::
  "database \<Rightarrow> string list \<Rightarrow> string list \<Rightarrow> int \<Rightarrow> string + database" where
  \<comment> \<open>\<open>UPDATE customers SET <updates> WHERE id = ?\<close>: the statement changes the one row or,
      when the new phone number is another row's, fails and changes nothing\<close>
  "update_customer_sql db updates params i =
     (if updates = [] then Inl syntax_error
      else
        (case get_customer_sql db i of
           None \<Rightarrow> Inr db
         | Some c \<Rightarrow>
             (case set_customer updates params c of
                None \<Rightarrow> Inl syntax_error
              | Some c' \<Rightarrow>
                  if phone_number c' \<in>
                       set (map phone_number (filter (\<lambda>d. c_id d \<noteq> i) (customers db)))
                  then Inl unique_error
                  else Inr (db\<lparr>customers :=
                                  map (\<lambda>d. if c_id d = i then c' else d) (customers db)\<rparr>))))"

fun set_address :: "string list \<Rightarrow> string list \<Rightarrow> address \<Rightarrow> address option" where
  "set_address [] vs a = Some a"
| "set_address (u # us) [] a = None"
| "set_address (u # us) (v # vs) a =
     (if u = ''address_details = ?'' then set_address us vs (a\<lparr>address_details := v\<rparr>)
      else if u = ''city = ?'' then set_address us vs (a\<lparr>city := v\<rparr>)
      else if u = ''state = ?'' then set_address us vs (a\<lparr>state := v\<rparr>)
      else if u = ''pin_code = ?'' then set_address us vs (a\<lparr>pin_code := v\<rparr>)
      else None)"

definition update_address_sql ::
  "database \<Rightarrow> string list \<Rightarrow> string list \<Rightarrow> int \<Rightarrow> string + database" where
  \<comment> \<open>\<open>UPDATE addresses SET <updates> WHERE id = ?\<close>\<close>
  "update_address_sql db updates params i =
     (if updates = [] then Inl syntax_error
      else
        (case get_address_sql db i of
           None \<Rightarrow> Inr db
         | Some a \<Rightarrow>
             (case set_address updates params a of
                None \<Rightarrow> Inl syntax_error
              | Some a' \<Rightarrow>
                  Inr (db\<lparr>addresses :=
                            map (\<lambda>d. if a_id d = i then a' else d) (addresses db)\<rparr>))))"

definition delete_customer_sql :: "database \<Rightarrow> int \<Rightarrow> database" where
  \<comment> \<open>\<open>DELETE FROM customers WHERE id = ?\<close>: the ON DELETE CASCADE action on \<open>addresses\<close>
      runs when the connection enforces foreign keys, and only then\<close>
  "delete_customer_sql db i =
     db\<lparr>customers := filter (\<lambda>c. c_id c \<noteq> i) (customers db),
        addresses :=
          (if foreign_keys db then filter (\<lambda>a. customer_id a \<noteq> i) (addresses db)
           else addresses db)\<rparr>"

definition delete_address_sql :: "database \<Rightarrow> int \<Rightarrow> database" where
  \<comment> \<open>\<open>DELETE FROM addresses WHERE id = ?\<close>\<close>
  "delete_address_sql db i = db\<lparr>addresses := filter (\<lambda>a. a_id a \<noteq> i) (addresses db)\<rparr>"

subsection \<open>Request validation\<close>

text \<open>
  The express-validator chains run before each handler. A chain without \<open>optional()\<close>
  reads a missing field as the empty string; \<open>trim()\<close> replaces the field of the body
  by the trimmed text; every validator of a chain runs and adds its own error.
\<close>

definition field_value :: "string option \<Rightarrow> string" where
  "field_value v = (case v of None \<Rightarrow> [] | Some s \<Rightarrow> s)"

definition isLength :: "nat \<Rightarrow> nat \<Rightarrow> string \<Rightarrow> bool" where
  "isLength lo hi s = (lo \<le> length s \<and> length s \<le> hi)"

definition required_error :: "string \<Rightarrow> string \<Rightarrow> string option \<Rightarrow> (string \<times> string) list" where
  \<comment> \<open>\<open>body(name).trim().notEmpty().withMessage(msg)\<close>\<close>
  "required_error name msg v = (if trim (field_value v) = [] then [(name, msg)] else [])"

definition optional_error :: "string \<Rightarrow> string \<Rightarrow> string option \<Rightarrow> (string \<times> string) list" where
  \<comment> \<open>\<open>body(name).optional().trim().notEmpty().withMessage(msg)\<close>\<close>
  "optional_error name msg v =
     (case v of None \<Rightarrow> [] | Some s \<Rightarrow> if trim s = [] then [(name, msg)] else [])"

record address_body =
  ab_address_details :: "string option"
  ab_city :: "string option"
  ab_state :: "string option"
  ab_pin_code :: "string option"

record customer_body =
  b_first_name :: "string option"
  b_last_name :: "string option"
  b_phone_number :: "string option"
  b_address :: "address_body option"

record customer_update =
  u_first_name :: "string option"
  u_last_name :: "string option"
  u_phone_number :: "string option"

definition bad_request :: "(string \<times> string) list \<Rightarrow> response" where
  "bad_request errors = \<lparr>status = 400, success = False, body = ValidationErrors errors\<rparr>"

definition not_found :: "string \<Rightarrow> response" where
  "not_found msg = \<lparr>status = 404, success = False, body = Message msg\<rparr>"

definition no_fields :: response where
  "no_fields = \<lparr>status = 400, success = False, body = Message ''No fields to update''\<rparr>"

definition conflict :: response where
  "conflict =
     \<lparr>status = 409, success = False, body = Message ''Phone number already exists''\<rparr>"

definition catch_customer :: "string \<Rightarrow> response" where
  \<comment> \<open>the \<open>catch\<close> branch of POST and PUT on customers, on the error's message\<close>
  "catch_customer msg =
     (if msg \<noteq> [] \<and> includes_str msg ''UNIQUE constraint failed'' then conflict
      else internal_error)"

subsection \<open>POST /api/customers\<close>

definition post_customers_errors :: "customer_body \<Rightarrow> (string \<times> string) list" where
  "post_customers_errors b =
     required_error ''first_name'' ''first_name required'' (b_first_name b) @
     required_error ''last_name'' ''last_name required'' (b_last_name b) @
     required_error ''phone_number'' ''phone_number required'' (b_phone_number b) @
     (if isLength 6 20 (trim (field_value (b_phone_number b))) then []
      else [(''phone_number'', ''phone_number length invalid'')])"

definition inline_address :: "address_body option \<Rightarrow> address_body option" where
  \<comment> \<open>\<open>address && address.address_details\<close>: the address when the test is truthy\<close>
  "inline_address a =
     (case a of
        None \<Rightarrow> None
      | Some ab \<Rightarrow> if or_empty (ab_address_details ab) [] \<noteq> [] then Some ab else None)"

definition post_customers :: "database \<Rightarrow> customer_body \<Rightarrow> response \<times> database" where
  "post_customers db b =
     (let errors = post_customers_errors b
      in if errors \<noteq> [] then (bad_request errors, db)
         else
           (case insert_customer_sql db
                   (trim (field_value (b_first_name b)))
                   (trim (field_value (b_last_name b)))
                   (trim (field_value (b_phone_number b))) of
              Inl err \<Rightarrow> (catch_customer err, db)
            | Inr (customerId, db1) \<Rightarrow>
                (case inline_address (b_address b) of
                   None \<Rightarrow>
                     (\<lparr>status = 201, success = True,
                       body = CustomerData (get_customer_sql db1 customerId) ''Customer created''\<rparr>,
                      db1)
                 | Some ab \<Rightarrow>
                     (case insert_address_sql db1 customerId
                             (or_empty (ab_address_details ab) [])
                             (or_empty (ab_city ab) [])
                             (or_empty (ab_state ab) [])
                             (or_empty (ab_pin_code ab) []) of
                        Inl err \<Rightarrow> (catch_customer err, db1)
                      | Inr (addressId, db2) \<Rightarrow>
                          (\<lparr>status = 201, success = True,
                            body = CustomerData (get_customer_sql db2 customerId)
                                     ''Customer created''\<rparr>,
                           db2)))))"

subsection \<open>GET /api/customers/:id\<close>

definition get_customer_by_id :: "database \<Rightarrow> int \<Rightarrow> response" where
  "get_customer_by_id db i =
     (case get_customer_sql db i of
        None \<Rightarrow> not_found ''Customer not found''
      | Some c \<Rightarrow>
          \<lparr>status = 200, success = True, body = CustomerDetail c (addresses_of_sql db i)\<rparr>)"

subsection \<open>PUT /api/customers/:id\<close>

definition put_customer_errors :: "customer_update \<Rightarrow> (string \<times> string) list" where
  "put_customer_errors u =
     optional_error ''first_name'' ''first_name cannot be empty'' (u_first_name u) @
     optional_error ''last_name'' ''last_name cannot be empty'' (u_last_name u) @
     (case u_phone_number u of
        None \<Rightarrow> []
      | Some s \<Rightarrow>
          if isLength 6 20 (trim s) then []
          else [(''phone_number'', ''phone_number length invalid'')])"

definition customer_updates :: "customer_update \<Rightarrow> string list \<times> string list" where
  \<comment> \<open>\<open>updates\<close> and \<open>params\<close> after the three \<open>if\<close> statements, on the trimmed fields\<close>
  "customer_updates u =
     (let fn = or_empty (map_option trim (u_first_name u)) [];
          ln = or_empty (map_option trim (u_last_name u)) [];
          pn = or_empty (map_option trim (u_phone_number u)) [];
          (updates, params) = ([], []);
          (updates, params) =
            (if fn \<noteq> [] then (updates @ [''first_name = ?''], params @ [fn])
             else (updates, params));
          (updates, params) =
            (if ln \<noteq> [] then (updates @ [''last_name = ?''], params @ [ln])
             else (updates, params));
          (updates, params) =
            (if pn \<noteq> [] then (updates @ [''phone_number = ?''], params @ [pn])
             else (updates, params))
      in (updates, params))"

definition put_customer :: "database \<Rightarrow> int \<Rightarrow> customer_update \<Rightarrow> response \<times> database" where
  "put_customer db i u =
     (let errors = put_customer_errors u
      in if errors \<noteq> [] then (bad_request errors, db)
         else
           (case get_customer_sql db i of
              None \<Rightarrow> (not_found ''Customer not found'', db)
            | Some existing \<Rightarrow>
                (let (updates, params) = customer_updates u
                 in if updates = [] then (no_fields, db)
                    else
                      (case update_customer_sql db updates params i of
                         Inl err \<Rightarrow> (catch_customer err, db)
                       | Inr db1 \<Rightarrow>
                           (\<lparr>status = 200, success = True,
                             body = CustomerData (get_customer_sql db1 i) ''Customer updated''\<rparr>,
                            db1)))))"

subsection \<open>DELETE /api/customers/:id\<close>

definition delete_customer :: "database \<Rightarrow> int \<Rightarrow> response \<times> database" where
  "delete_customer db i =
     (case get_customer_sql db i of
        None \<Rightarrow> (not_found ''Customer not found'', db)
      | Some existing \<Rightarrow>
          (\<lparr>status = 200, success = True, body = Message ''Customer deleted''\<rparr>,
           delete_customer_sql db i))"

subsection \<open>Address routes\<close>

definition post_address_errors :: "address_body \<Rightarrow> (string \<times> string) list" where
  "post_address_errors ab =
     required_error ''address_details'' ''Invalid value'' (ab_address_details ab) @
     required_error ''city'' ''Invalid value'' (ab_city ab) @
     required_error ''state'' ''Invalid value'' (ab_state ab) @
     required_error ''pin_code'' ''Invalid value'' (ab_pin_code ab)"

definition post_customer_addresses ::
  "database \<Rightarrow> int \<Rightarrow> address_body \<Rightarrow> response \<times> database" where
  "post_customer_addresses db i ab =
     (let errors = post_address_errors ab
      in if errors \<noteq> [] then (bad_request errors, db)
         else
           (case get_customer_sql db i of
              None \<Rightarrow> (not_found ''Customer not found'', db)
            | Some existing \<Rightarrow>
                (case insert_address_sql db i
                        (trim (field_value (ab_address_details ab)))
                        (trim (field_value (ab_city ab)))
                        (trim (field_value (ab_state ab)))
                        (trim (field_value (ab_pin_code ab))) of
                   Inl err \<Rightarrow> (internal_error, db)
                 | Inr (addressId, db1) \<Rightarrow>
                     (\<lparr>status = 201, success = True,
                       body = AddressData (get_address_sql db1 addressId) ''Address added''\<rparr>,
                      db1))))"

definition get_customer_addresses :: "database \<Rightarrow> int \<Rightarrow> response" where
  "get_customer_addresses db i =
     (case get_customer_sql db i of
        None \<Rightarrow> not_found ''Customer not found''
      | Some existing \<Rightarrow>
          \<lparr>status = 200, success = True, body = AddressList (addresses_of_sql db i)\<rparr>)"

definition put_address_errors :: "address_body \<Rightarrow> (string \<times> string) list" where
  "put_address_errors ab =
     optional_error ''address_details'' ''Invalid value'' (ab_address_details ab) @
     optional_error ''city'' ''Invalid value'' (ab_city ab) @
     optional_error ''state'' ''Invalid value'' (ab_state ab) @
     optional_error ''pin_code'' ''Invalid value'' (ab_pin_code ab)"

definition address_updates :: "address_body \<Rightarrow> string list \<times> string list" where
  "address_updates ab =
     (let d = or_empty (map_option trim (ab_address_details ab)) [];
          c = or_empty (map_option trim (ab_city ab)) [];
          s = or_empty (map_option trim (ab_state ab)) [];
          p = or_empty (map_option trim (ab_pin_code ab)) [];
          (updates, params) = ([], []);
          (updates, params) =
            (if d \<noteq> [] then (updates @ [''address_details = ?''], params @ [d])
             else (updates, params));
          (updates, params) =
            (if c \<noteq> [] then (updates @ [''city = ?''], params @ [c])
             else (updates, params));
          (updates, params) =
            (if s \<noteq> [] then (updates @ [''state = ?''], params @ [s])
             else (updates, params));
          (updates, params) =
            (if p \<noteq> [] then (updates @ [''pin_code = ?''], params @ [p])
             else (updates, params))
      in (updates, params))"

definition put_address :: "database \<Rightarrow> int \<Rightarrow> address_body \<Rightarrow> response \<times> database" where
  "put_address db i ab =
     (let errors = put_address_errors ab
      in if errors \<noteq> [] then (bad_request errors, db)
         else
           (case get_address_sql db i of
              None \<Rightarrow> (not_found ''Address not found'', db)
            | Some existing \<Rightarrow>
                (let (updates, params) = address_updates ab
                 in if updates = [] then (no_fields, db)
                    else
                      (case update_address_sql db updates params i of
                         Inl err \<Rightarrow> (internal_error, db)
                       | Inr db1 \<Rightarrow>
                           (\<lparr>status = 200, success = True,
                             body = AddressData (get_address_sql db1 i) ''Address updated''\<rparr>,
                            db1)))))"

definition delete_address :: "database \<Rightarrow> int \<Rightarrow> response \<times> database" where
  "delete_address db i =
     (case get_address_sql db i of
        None \<Rightarrow> (not_found ''Address not found'', db)
      | Some existing \<Rightarrow>
          (\<lparr>status = 200, success = True, body = Message ''Address deleted''\<rparr>,
           delete_address_sql db i))"

subsection \<open>The stated behaviour of the list query\<close>

text \<open>
  The filter conditions in the words of the specification, for comparison with the
  statements the handler builds and runs.
\<close>

definition has_address :: "database \<Rightarrow> customer \<Rightarrow> (address \<Rightarrow> string) \<Rightarrow> string \<Rightarrow> bool" where
  \<comment> \<open>the customer has at least one address whose field is exactly the value\<close>
  "has_address db c field v = (\<exists>a \<in> set (addresses db). customer_id a = c_id c \<and> field a = v)"

definition search_matches :: "string \<Rightarrow> customer \<Rightarrow> bool" where
  \<comment> \<open>the search condition as the engine runs it: two LIKE tests on the pattern
      \<open>%search%\<close>\<close>
  "search_matches s c =
     (like (''%'' @ s @ ''%'') (first_name c @ '' '' @ last_name c)
      \<or> like (''%'' @ s @ ''%'') (phone_number c))"



definition satisfies_filters :: "database \<Rightarrow> list_query \<Rightarrow> customer \<Rightarrow> bool" where
  \<comment> \<open>the conjunction of the active filters\<close>
  "satisfies_filters db q c =
     ((search_of q \<noteq> [] \<longrightarrow> search_matches (search_of q) c) \<and>
      (city_of q \<noteq> [] \<longrightarrow> has_address db c city (city_of q)) \<and>
      (state_of q \<noteq> [] \<longrightarrow> has_address db c state (state_of q)) \<and>
      (pin_code_of q \<noteq> [] \<longrightarrow> has_address db c pin_code (pin_code_of q)))"


definition field_part :: "string \<Rightarrow> string" where
  \<comment> \<open>the text before the first colon\<close>
  "field_part s = takeWhile (\<lambda>c. c \<noteq> CHR '':'') s"

definition direction_part :: "string \<Rightarrow> string option" where
  \<comment> \<open>the text between the first colon and the second, when there is a colon\<close>
  "direction_part s =
     (if CHR '':'' \<in> set s
      then Some (takeWhile (\<lambda>c. c \<noteq> CHR '':'') (tl (dropWhile (\<lambda>c. c \<noteq> CHR '':'') s)))
      else None)"

subsection \<open>Example data\<close>

definition ann :: customer where
  "ann = \<lparr>c_id = 1, first_name = ''Ann'', last_name = ''Bee'', phone_number = ''5550001''\<rparr>"

definition cyd :: customer where
  "cyd = \<lparr>c_id = 2, first_name = ''Cyd'', last_name = ''Dow'', phone_number = ''7770002''\<rparr>"

definition ann_home :: address where
  "ann_home =
     \<lparr>a_id = 1, customer_id = 1, address_details = ''1 Main St'', city = ''Pune'',
      state = ''GA'', pin_code = ''411001''\<rparr>"

definition ann_work :: address where
  "ann_work =
     \<lparr>a_id = 2, customer_id = 1, address_details = ''2 High St'', city = ''Panaji'',
      state = ''MH'', pin_code = ''403001''\<rparr>"

definition example_db :: database where
  "example_db =
     \<lparr>customers = [ann, cyd], addresses = [ann_home, ann_work], customers_seq = 2,
      addresses_seq = 2, foreign_keys = False\<rparr>"

definition no_query :: list_query where
  "no_query =
     \<lparr>q_page = None, q_limit = None, q_search = None, q_city = None, q_state = None,
      q_pin_code = None, q_sort = None\<rparr>"

definition pune_query :: list_query where
  "pune_query =
     no_query\<lparr>q_search := Some ''ann'', q_city := Some ''Pune'',
              q_sort := Some ''last_name:desc''\<rparr>"

definition inject_query :: list_query where
  "inject_query =
     no_query\<lparr>q_search := Some ''x%' OR 1=1 --'',
              q_city := Some '''; DROP TABLE customers; --'',
              q_sort := Some ''last_name:DESC:x''\<rparr>"



definition negative_limit_query :: list_query where
  "negative_limit_query = no_query\<lparr>q_limit := Some ''-1''\<rparr>"

definition huge_page_query :: list_query where
  "huge_page_query = no_query\<lparr>q_page := Some ''99999999999999999999''\<rparr>"

definition far_page_query :: list_query where
  "far_page_query =
     no_query\<lparr>q_page := Some ''5'', q_limit := Some ''1'', q_city := Some ''Pune''\<rparr>"



definition nickname_desc_query :: list_query where
  "nickname_desc_query = no_query\<lparr>q_sort := Some ''nickname:desc''\<rparr>"

definition phone_desc_query :: list_query where
  "phone_desc_query = no_query\<lparr>q_sort := Some ''phone_number:desc''\<rparr>"

definition ann_body :: customer_body where
  "ann_body =
     \<lparr>b_first_name = Some ''Ann'', b_last_name = Some ''Bee'',
      b_phone_number = Some ''5550001'',
      b_address = Some \<lparr>ab_address_details = Some ''1 Main St'', ab_city = Some ''Pune'',
                        ab_state = None, ab_pin_code = None\<rparr>\<rparr>"

definition after_create :: database where
  \<comment> \<open>the store after the first POST /api/customers on a new database\<close>
  "after_create = snd (post_customers open_database ann_body)"

definition after_delete :: database where
  \<comment> \<open>and after DELETE /api/customers/1\<close>
  "after_delete = snd (delete_customer after_create 1)"

definition city_update :: address_body where
  "city_update =
     \<lparr>ab_address_details = None, ab_city = Some ''Goa'', ab_state = None, ab_pin_code = None\<rparr>"

definition empty_update :: customer_update where
  "empty_update = \<lparr>u_first_name = None, u_last_name = None, u_phone_number = None\<rparr>"

definition ann_again :: customer_body where
  "ann_again =
     \<lparr>b_first_name = Some ''Anna'', b_last_name = Some ''Bell'',
      b_phone_number = Some '' 5550001 '', b_address = None\<rparr>"

definition take_ann_phone :: customer_update where
  "take_ann_phone =
     \<lparr>u_first_name = Some ''Cy'', u_last_name = None, u_phone_number = Some ''5550001''\<rparr>"

definition blank_city_address :: address_body where
  "blank_city_address =
     \<lparr>ab_address_details = Some ''9 Low Rd'', ab_city = Some ''   '', ab_state = Some ''KA'',
      ab_pin_code = Some ''560001''\<rparr>"

definition dee_body :: customer_body where
  "dee_body =
     \<lparr>b_first_name = Some ''Dee'', b_last_name = Some ''Eng'',
      b_phone_number = Some ''9990003'',
      b_address = Some \<lparr>ab_address_details = Some ''9 Low Rd'', ab_city = None,
                        ab_state = Some ''KA'', ab_pin_code = None\<rparr>\<rparr>"

section \<open>Properties\<close>

subsection \<open>The list query runs as the filters read\<close>

lemma sql_distinct:
  "search_sql \<noteq> city_sql" "search_sql \<noteq> state_sql" "search_sql \<noteq> pin_code_sql"
  "city_sql \<noteq> state_sql" "city_sql \<noteq> pin_code_sql" "state_sql \<noteq> pin_code_sql"
  by (simp_all add: search_sql_def city_sql_def state_sql_def pin_code_sql_def)

lemma build_where_parts:
  "fst (build_where q) =
     (if search_of q \<noteq> [] then [search_sql] else []) @
     (if city_of q \<noteq> [] then [city_sql] else []) @
     (if state_of q \<noteq> [] then [state_sql] else []) @
     (if pin_code_of q \<noteq> [] then [pin_code_sql] else [])"
  by (simp add: build_where_def Let_def)

lemma build_where_params:
  "snd (build_where q) =
     (if search_of q \<noteq> [] then [''%'' @ search_of q @ ''%'', ''%'' @ search_of q @ ''%''] else []) @
     (if city_of q \<noteq> [] then [city_of q] else []) @
     (if state_of q \<noteq> [] then [state_of q] else []) @
     (if pin_code_of q \<noteq> [] then [pin_code_of q] else [])"
  by (simp add: build_where_def Let_def)

lemma where_params_build:
  "where_params (fst (build_where q)) = Some (length (snd (build_where q)))"
  by (simp add: build_where_parts build_where_params sql_distinct sql_distinct[symmetric])

lemma in_subselect:
  "(i \<in> set (map customer_id (filter (\<lambda>a. field a = v) (addresses db)))) =
   (\<exists>a \<in> set (addresses db). customer_id a = i \<and> field a = v)"
  by auto

lemma eval_where_build:
  "eval_where db (fst (build_where q)) (snd (build_where q)) = satisfies_filters db q"
  unfolding build_where_parts build_where_params satisfies_filters_def has_address_def
    search_matches_def
  by (rule ext) (simp add: sql_distinct sql_distinct[symmetric] in_subselect del: set_map set_filter)

lemma select_where_build:
  "select_where db (fst (build_where q)) (snd (build_where q)) =
   Some (filter (satisfies_filters db q) (customers db))"
  by (simp add: select_where_def where_params_build eval_where_build)

lemma matching_customers_eq:
  "matching_customers db q = filter (satisfies_filters db q) (customers db)"
  by (simp add: matching_customers_def select_where_build)

lemma sortDir_cases: "sortDir q = ''ASC'' \<or> sortDir q = ''DESC''"
  by (simp add: sortDir_def split: option.splits)

lemma sortField_cases: "sortField q \<in> set allowedFields"
  by (simp add: sortField_def allowedFields_def split: option.splits)

lemma order_by_validated:
  "order_by (sortField q) (sortDir q) (matching_customers db q) = Some (ordered_customers db q)"
  using sortDir_cases[of q] sortField_cases[of q]
  by (auto simp: order_by_def allowedFields_def ordered_customers_def)

lemma get_customers_ok:
  assumes "limit_value (limit_of q) = Some l" and "limit_value (offset_of q) = Some off"
  shows "get_customers db q =
     \<lparr>status = 200, success = True,
      body = CustomerList (limit_offset l off (ordered_customers db q))
               \<lparr>m_page = page_of q, m_limit = limit_of q,
                m_total = int (length (matching_customers db q))\<rparr>\<rparr>"
proof -
  obtain ws vs where bw: "build_where q = (ws, vs)"
    by (cases "build_where q")
  have sw: "select_where db ws vs = Some (matching_customers db q)"
    using select_where_build[of db q] bw by (simp add: matching_customers_eq)
  show ?thesis
    using order_by_validated[of q db] assms
    by (simp add: get_customers_def bw count_customers_def select_page_def sw)
qed

lemma get_customers_mismatch:
  assumes "limit_value (limit_of q) = None \<or> limit_value (offset_of q) = None"
  shows "get_customers db q = internal_error"
proof -
  obtain ws vs where bw: "build_where q = (ws, vs)"
    by (cases "build_where q")
  have sw: "select_where db ws vs = Some (matching_customers db q)"
    using select_where_build[of db q] bw by (simp add: matching_customers_eq)
  show ?thesis
    using assms
    by (auto simp: get_customers_def bw count_customers_def select_page_def sw
        split: option.splits)
qed

lemma status_200_iff:
  "status (get_customers db q) = 200 \<longleftrightarrow>
   limit_value (limit_of q) \<noteq> None \<and> limit_value (offset_of q) \<noteq> None"
proof (cases "limit_value (limit_of q) = None \<or> limit_value (offset_of q) = None")
  case True
  then show ?thesis
    using get_customers_mismatch[OF True, of db] by (auto simp: internal_error_def)
next
  case False
  then obtain l off where "limit_value (limit_of q) = Some l"
    "limit_value (offset_of q) = Some off"
    by auto
  then show ?thesis
    using get_customers_ok[of q l off db] by simp
qed

lemma length_ordered: "length (ordered_customers db q) = length (matching_customers db q)"
  using sortDir_cases[of q] sortField_cases[of q]
  by (auto simp: order_by_def allowedFields_def ordered_customers_def sort_rows_def)



lemma data_of_error: "data_of internal_error = []"
  by (simp add: data_of_def internal_error_def)

lemma meta_of_error: "meta_of internal_error = None"
  by (simp add: meta_of_def internal_error_def)

lemma data_of_get_customers:
  "data_of (get_customers db q) =
     (case (limit_value (limit_of q), limit_value (offset_of q)) of
        (Some l, Some off) \<Rightarrow> limit_offset l off (ordered_customers db q)
      | _ \<Rightarrow> [])"
proof (cases "limit_value (limit_of q) = None \<or> limit_value (offset_of q) = None")
  case True
  then show ?thesis
    using get_customers_mismatch[OF True, of db]
    by (auto simp: data_of_error split: option.splits)
next
  case False
  then obtain l off where "limit_value (limit_of q) = Some l"
    "limit_value (offset_of q) = Some off"
    by auto
  then show ?thesis
    using get_customers_ok[of q l off db] by (simp add: data_of_def)
qed

lemma meta_of_get_customers:
  "meta_of (get_customers db q) =
     (if status (get_customers db q) = 200
      then Some \<lparr>m_page = page_of q, m_limit = limit_of q,
                 m_total = int (length (matching_customers db q))\<rparr>
      else None)"
proof (cases "limit_value (limit_of q) = None \<or> limit_value (offset_of q) = None")
  case True
  then show ?thesis
    using get_customers_mismatch[OF True, of db] status_200_iff[of db q]
    by (auto simp: meta_of_error)
next
  case False
  then obtain l off where "limit_value (limit_of q) = Some l"
    "limit_value (offset_of q) = Some off"
    by auto
  then show ?thesis
    using get_customers_ok[of q l off db] by (simp add: meta_of_def)
qed


subsection \<open>Query text\<close>

text \<open>
  C2. The text of the count query and of the page query is a function of which of the four
  filters are non-empty and of the validated sort field and direction: two requests that
  agree on those produce the same two texts, whatever the filter values are. The values
  travel in the bound-parameter list alone.
\<close>

theorem query_text_independent_of_values:
  assumes "(search_of q = []) = (search_of q' = [])"
    and "(city_of q = []) = (city_of q' = [])"
    and "(state_of q = []) = (state_of q' = [])"
    and "(pin_code_of q = []) = (pin_code_of q' = [])"
    and "sortField q = sortField q'"
    and "sortDir q = sortDir q'"
  shows "totalSql q = totalSql q' \<and> pageSql q = pageSql q'"
proof -
  have "fst (build_where q) = fst (build_where q')"
    using assms(1-4) by (simp add: build_where_parts)
  then have "whereSql q = whereSql q'"
    by (simp add: whereSql_def)
  then show ?thesis
    using assms(5,6) by (simp add: totalSql_def pageSql_def)
qed

theorem query_text_independent_of_values_witness:
  "(search_of pune_query = []) = (search_of inject_query = []) \<and>
   (city_of pune_query = []) = (city_of inject_query = []) \<and>
   (state_of pune_query = []) = (state_of inject_query = []) \<and>
   (pin_code_of pune_query = []) = (pin_code_of inject_query = []) \<and>
   sortField pune_query = sortField inject_query \<and>
   sortDir pune_query = sortDir inject_query \<and>
   search_of pune_query \<noteq> search_of inject_query \<and>
   totalSql pune_query = totalSql inject_query \<and> pageSql pune_query = pageSql inject_query"
proof -
  have h1: "(search_of pune_query = []) = (search_of inject_query = [])"
    and h2: "(city_of pune_query = []) = (city_of inject_query = [])"
    and h3: "(state_of pune_query = []) = (state_of inject_query = [])"
    and h4: "(pin_code_of pune_query = []) = (pin_code_of inject_query = [])"
    by code_simp+
  have h5: "sortField pune_query = sortField inject_query"
    and h6: "sortDir pune_query = sortDir inject_query"
    by code_simp+
  have h7: "search_of pune_query \<noteq> search_of inject_query"
    by code_simp
  show ?thesis
    using query_text_independent_of_values[OF h1 h2 h3 h4 h5 h6] h1 h2 h3 h4 h5 h6 h7 by simp
qed

subsection \<open>Pagination\<close>






lemma sign_not_digit: "c = CHR ''+'' \<or> c = CHR ''-'' \<Longrightarrow> \<not> is_digit 10 c"
  by (auto simp: is_digit_def digit_value_def)






lemma satisfies_filters_page_limit:
  "satisfies_filters db (q\<lparr>q_page := p, q_limit := l\<rparr>) = satisfies_filters db q"
  by (rule ext)
    (simp add: satisfies_filters_def search_of_def city_of_def state_of_def pin_code_of_def)

lemma length_limit_offset: "0 \<le> l \<Longrightarrow> int (length (limit_offset l off rows)) \<le> l"
  by (simp add: limit_offset_def Let_def)

lemma limit_offset_beyond: "int (length rows) \<le> off \<Longrightarrow> limit_offset l off rows = []"
  by (auto simp: limit_offset_def Let_def)

subsection \<open>Address filters\<close>



subsection \<open>Total and page size\<close>

text \<open>
  C3, as stated, bounds the length of \<open>data\<close> by \<open>limit\<close> for every request and has no
  page beyond the last answered with an error. A request with \<open>limit=-1\<close> on the two
  example customers receives both rows: SQLite reads a negative LIMIT as no limit. A
  request with \<open>page=99999999999999999999\<close> is answered 500: its offset is no 64-bit
  integer and the page query fails.
\<close>

theorem unchecked_limit_and_page:
  "limit_of negative_limit_query = Num (- 1) \<and>
   \<not> int (length (data_of (get_customers example_db negative_limit_query))) \<le> - 1 \<and>
   q_page huge_page_query = Some ''99999999999999999999'' \<and>
   get_customers example_db huge_page_query = internal_error \<and>
   status (get_customers example_db huge_page_query) = 500"
  by code_simp

text \<open>
  C3, amended. A list request whose parameters are each absent or one string is answered
  200 exactly when its limit and its offset \<open>(page - 1) * limit\<close>, as JavaScript computes
  them, are integers strictly between \<open>- 2 ^ 63\<close> and \<open>2 ^ 63\<close>, and with the generic 500
  otherwise. In a 200 answer \<open>meta.total\<close> is the number of customers that
  satisfy the active filters, whatever page and limit are. When the limit is not
  negative, \<open>data\<close> has at most \<open>limit\<close> rows, and a page whose offset is at or beyond the
  total has no rows.
\<close>

theorem list_total_and_page_size:
  "(status (get_customers db q) = 200) =
     (limit_value (limit_of q) \<noteq> None \<and> limit_value (offset_of q) \<noteq> None) \<and>
   (status (get_customers db q) \<noteq> 200 \<longrightarrow> get_customers db q = internal_error) \<and>
   (status (get_customers db q) = 200 \<longrightarrow>
      map_option m_total (meta_of (get_customers db q)) =
        Some (int (length (filter (satisfies_filters db q) (customers db))))) \<and>
   (status (get_customers db (q\<lparr>q_page := p, q_limit := n\<rparr>)) = 200 \<longrightarrow>
      map_option m_total (meta_of (get_customers db (q\<lparr>q_page := p, q_limit := n\<rparr>))) =
        Some (int (length (filter (satisfies_filters db q) (customers db))))) \<and>
   (limit_value (limit_of q) = Some l \<and> 0 \<le> l \<longrightarrow>
      int (length (data_of (get_customers db q))) \<le> l) \<and>
   (limit_value (offset_of q) = Some off \<and>
    int (length (filter (satisfies_filters db q) (customers db))) \<le> off \<longrightarrow>
      data_of (get_customers db q) = [])"
proof -
  have e: "get_customers db q = internal_error" if "status (get_customers db q) \<noteq> 200"
    using that get_customers_mismatch[of q db] by (auto simp: status_200_iff)
  have b: "int (length (data_of (get_customers db q))) \<le> l"
    if "limit_value (limit_of q) = Some l" "0 \<le> l"
    using that by (auto simp: data_of_get_customers length_limit_offset split: option.splits)
  have z: "data_of (get_customers db q) = []"
    if "limit_value (offset_of q) = Some off"
      "int (length (filter (satisfies_filters db q) (customers db))) \<le> off"
    using that limit_offset_beyond[of "ordered_customers db q" off]
    by (auto simp: data_of_get_customers length_ordered matching_customers_eq
        split: option.splits)
  show ?thesis
    using e b z status_200_iff[of db q]
    by (simp add: meta_of_get_customers matching_customers_eq satisfies_filters_page_limit)
qed

theorem list_total_and_page_size_witness:
  "limit_value (limit_of far_page_query) = Some 1 \<and>
   limit_value (offset_of far_page_query) = Some 4 \<and>
   int (length (filter (satisfies_filters example_db far_page_query) (customers example_db)))
     \<le> 4 \<and>
   status (get_customers example_db far_page_query) = 200 \<and>
   map_option m_total (meta_of (get_customers example_db far_page_query)) = Some 1 \<and>
   data_of (get_customers example_db far_page_query) = [] \<and>
   status (get_customers example_db (far_page_query\<lparr>q_page := None, q_limit := None\<rparr>)) = 200 \<and>
   map_option m_total
     (meta_of (get_customers example_db (far_page_query\<lparr>q_page := None, q_limit := None\<rparr>))) =
     Some 1 \<and>
   status (get_customers example_db huge_page_query) \<noteq> 200 \<and>
   get_customers example_db huge_page_query = internal_error"
proof -
  have l: "limit_value (limit_of far_page_query) = Some 1"
    and o: "limit_value (offset_of far_page_query) = Some 4"
    by code_simp+
  have n: "length (filter (satisfies_filters example_db far_page_query) (customers example_db)) = 1"
    by code_simp
  have h: "limit_value (offset_of huge_page_query) = None"
    by code_simp
  have s: "status (get_customers example_db far_page_query) = 200"
    using list_total_and_page_size[of example_db far_page_query] l o by simp
  have t: "status (get_customers example_db huge_page_query) \<noteq> 200"
    using list_total_and_page_size[of example_db huge_page_query] h by simp
  have u: "status (get_customers example_db (far_page_query\<lparr>q_page := None, q_limit := None\<rparr>))
      = 200"
    by code_simp
  show ?thesis
    using list_total_and_page_size[of example_db far_page_query None None 1 4]
      list_total_and_page_size[of example_db huge_page_query] l o n s t u
    by simp
qed

subsection \<open>Search\<close>











subsection \<open>Sorting\<close>

lemma split_on_first:
  "split_on sep s =
     takeWhile (\<lambda>c. c \<noteq> sep) s #
     (if sep \<in> set s then split_on sep (tl (dropWhile (\<lambda>c. c \<noteq> sep) s)) else [])"
  by (induction s) auto

lemma sort_parts_eq:
  "sort_parts q = (Some (field_part (sort_of q)), direction_part (sort_of q))"
proof (cases "CHR '':'' \<in> set (sort_of q)")
  case True
  obtain r where r: "r = tl (dropWhile (\<lambda>c. c \<noteq> CHR '':'') (sort_of q))" by simp
  have "split_on CHR '':'' (sort_of q) = field_part (sort_of q) # split_on CHR '':'' r"
    using split_on_first[of "CHR '':''" "sort_of q"] True r by (simp add: field_part_def)
  moreover have "\<exists>rest. split_on CHR '':'' r = takeWhile (\<lambda>c. c \<noteq> CHR '':'') r # rest"
    using split_on_first[of "CHR '':''" r] by simp
  ultimately show ?thesis
    using True r by (auto simp: sort_parts_def direction_part_def)
next
  case False
  then have "split_on CHR '':'' (sort_of q) = [field_part (sort_of q)]"
    using split_on_first[of "CHR '':''" "sort_of q"] by (simp add: field_part_def)
  then show ?thesis
    using False by (simp add: sort_parts_def direction_part_def)
qed

lemma upper_D: "toUpperCase_char c = CHR ''D'' \<longleftrightarrow> toLowerCase_char c = CHR ''d''"
  by (auto simp: toUpperCase_char_def toLowerCase_char_def lower_letters_def upper_letters_def)

lemma upper_E: "toUpperCase_char c = CHR ''E'' \<longleftrightarrow> toLowerCase_char c = CHR ''e''"
  by (auto simp: toUpperCase_char_def toLowerCase_char_def lower_letters_def upper_letters_def)

lemma upper_S: "toUpperCase_char c = CHR ''S'' \<longleftrightarrow> toLowerCase_char c = CHR ''s''"
  by (auto simp: toUpperCase_char_def toLowerCase_char_def lower_letters_def upper_letters_def)

lemma upper_C: "toUpperCase_char c = CHR ''C'' \<longleftrightarrow> toLowerCase_char c = CHR ''c''"
  by (auto simp: toUpperCase_char_def toLowerCase_char_def lower_letters_def upper_letters_def)

lemma upper_DESC: "toUpperCase d = ''DESC'' \<longleftrightarrow> toLowerCase d = ''desc''"
  by (auto simp: toUpperCase_def toLowerCase_def map_eq_Cons_conv upper_D upper_E upper_S upper_C)

lemma sortDir_eq:
  "sortDir q =
     (if \<exists>d. direction_part (sort_of q) = Some d \<and> toLowerCase d = ''desc''
      then ''DESC'' else ''ASC'')"
proof -
  have "toLowerCase d = ''desc'' \<Longrightarrow> d \<noteq> []" for d
    by (auto simp: toLowerCase_def)
  then show ?thesis
    by (auto simp: sortDir_def sort_parts_eq upper_DESC split: option.splits)
qed

lemma sortField_eq:
  "sortField q =
     (if field_part (sort_of q) \<in> {''id'', ''first_name'', ''last_name'', ''phone_number''}
      then field_part (sort_of q) else ''id'')"
  by (auto simp: sortField_def sort_parts_eq allowedFields_def)

lemma ascending_window:
  "sorted (map k rows) \<Longrightarrow> sorted (map k (limit_offset l off rows))"
  by (simp add: limit_offset_def Let_def sorted_wrt_take sorted_wrt_drop flip: take_map drop_map)

lemma descending_window:
  "sorted (rev (map k rows)) \<Longrightarrow> sorted (rev (map k (limit_offset l off rows)))"
proof -
  assume "sorted (rev (map k rows))"
  then have "sorted_wrt (\<lambda>a b. b \<le> a) (map k rows)"
    by (simp add: sorted_wrt_rev)
  then have "sorted_wrt (\<lambda>a b. b \<le> a) (map k (limit_offset l off rows))"
    by (simp add: limit_offset_def Let_def sorted_wrt_take sorted_wrt_drop flip: take_map drop_map)
  then show ?thesis
    by (simp add: sorted_wrt_rev)
qed

lemma ascending_data:
  "sorted (map k (ordered_customers db q)) \<Longrightarrow> sorted (map k (data_of (get_customers db q)))"
  by (auto simp: data_of_get_customers ascending_window split: option.splits)

lemma descending_data:
  "sorted (rev (map k (ordered_customers db q))) \<Longrightarrow>
   sorted (rev (map k (data_of (get_customers db q))))"
  by (auto simp: data_of_get_customers descending_window split: option.splits)

lemma ordered_by_id_asc:
  "sortField q = ''id'' \<Longrightarrow> sortDir q = ''ASC'' \<Longrightarrow> sorted (map c_id (ordered_customers db q))"
  by (simp add: ordered_customers_def order_by_def sort_rows_def)

lemma ordered_by_id_desc:
  "sortField q = ''id'' \<Longrightarrow> sortDir q = ''DESC'' \<Longrightarrow>
   sorted (rev (map c_id (ordered_customers db q)))"
  by (simp add: ordered_customers_def order_by_def sort_rows_def rev_map)

lemma ordered_by_phone_desc:
  "sortField q = ''phone_number'' \<Longrightarrow> sortDir q = ''DESC'' \<Longrightarrow>
   sorted (rev (map phone_number (ordered_customers db q)))"
  by (simp add: ordered_customers_def order_by_def sort_rows_def rev_map)

text \<open>
  C5, as stated, has every request with an unrecognized sort field answered in ascending
  order of id. The request \<open>sort=nickname:desc\<close> names no column of the allow-list, and
  its rows come in descending order of id: the direction is read whatever the field is.
\<close>

theorem unknown_field_desc_is_descending:
  "field_part (sort_of nickname_desc_query) \<notin> set allowedFields \<and>
   \<not> sorted (map c_id (data_of (get_customers example_db nickname_desc_query)))"
  by code_simp

text \<open>
  C5, amended. The sort parameter, \<open>id:asc\<close> when absent or empty, is split at its colons;
  the field is the first part when that is one of id, first_name, last_name and
  phone_number, and id otherwise; the direction is DESC exactly when the second part
  equals \<open>desc\<close> up to case, and ASC otherwise. Rows sorted by id come in ascending order
  of id when the direction is ASC and in descending order when it is DESC, and
  \<open>sort=phone_number:desc\<close> gives rows whose phone numbers never increase.
\<close>

theorem sort_validation:
  "(q_sort q = None \<longrightarrow> sort_of q = ''id:asc'') \<and>
   sort_parts q = (Some (field_part (sort_of q)), direction_part (sort_of q)) \<and>
   sortField q =
     (if field_part (sort_of q) \<in> {''id'', ''first_name'', ''last_name'', ''phone_number''}
      then field_part (sort_of q) else ''id'') \<and>
   sortDir q =
     (if \<exists>d. direction_part (sort_of q) = Some d \<and> toLowerCase d = ''desc''
      then ''DESC'' else ''ASC'') \<and>
   (sortField q = ''id'' \<and> sortDir q = ''ASC'' \<longrightarrow>
      sorted (map c_id (data_of (get_customers db q)))) \<and>
   (sortField q = ''id'' \<and> sortDir q = ''DESC'' \<longrightarrow>
      sorted (rev (map c_id (data_of (get_customers db q))))) \<and>
   (sort_of q = ''phone_number:desc'' \<longrightarrow>
      sorted (rev (map phone_number (data_of (get_customers db q)))))"
proof -
  have "sort_of q = ''phone_number:desc'' \<longrightarrow>
      sorted (rev (map phone_number (data_of (get_customers db q))))"
  proof
    assume s: "sort_of q = ''phone_number:desc''"
    have "field_part (sort_of q) = ''phone_number''"
      and "direction_part (sort_of q) = Some ''desc''"
      by (simp_all add: s field_part_def direction_part_def)
    then have "sortField q = ''phone_number''" and "sortDir q = ''DESC''"
      by (simp_all add: sortField_eq sortDir_eq toLowerCase_def toLowerCase_char_def
          upper_letters_def lower_letters_def)
    then show "sorted (rev (map phone_number (data_of (get_customers db q))))"
      by (simp add: descending_data ordered_by_phone_desc)
  qed
  moreover have "q_sort q = None \<longrightarrow> sort_of q = ''id:asc''"
    by (simp add: sort_of_def or_empty_def)
  ultimately show ?thesis
    using sortField_eq[of q] sortDir_eq[of q]
    by (simp add: sort_parts_eq ascending_data descending_data ordered_by_id_asc
        ordered_by_id_desc)
qed

theorem sort_validation_witness:
  "sort_of phone_desc_query = ''phone_number:desc'' \<and>
   sortField phone_desc_query = ''phone_number'' \<and> sortDir phone_desc_query = ''DESC'' \<and>
   sorted (rev (map phone_number (data_of (get_customers example_db phone_desc_query)))) \<and>
   q_sort no_query = None \<and> sortField no_query = ''id'' \<and> sortDir no_query = ''ASC'' \<and>
   sorted (map c_id (data_of (get_customers example_db no_query))) \<and>
   sortField nickname_desc_query = ''id'' \<and> sortDir nickname_desc_query = ''DESC'' \<and>
   sorted (rev (map c_id (data_of (get_customers example_db nickname_desc_query))))"
proof -
  have a: "sort_of phone_desc_query = ''phone_number:desc''"
    "sortField phone_desc_query = ''phone_number''" "sortDir phone_desc_query = ''DESC''"
    by code_simp+
  have b: "q_sort no_query = None" "sortField no_query = ''id''" "sortDir no_query = ''ASC''"
    by code_simp+
  have c: "sortField nickname_desc_query = ''id''" "sortDir nickname_desc_query = ''DESC''"
    by code_simp+
  show ?thesis
    using sort_validation[of phone_desc_query example_db] sort_validation[of no_query example_db]
      sort_validation[of nickname_desc_query example_db] a b c
    by simp
qed

subsection \<open>Deleting a customer\<close>

lemma delete_customer_removes_customer:
  "get_customer_sql (snd (delete_customer db i)) i = None"
  by (auto simp: delete_customer_def get_customer_sql_def delete_customer_sql_def find_None_iff
      split: option.splits)

lemma delete_customer_cascades_when_enforced:
  assumes "foreign_keys db" and "get_customer_sql db i = Some c"
  shows "addresses (snd (delete_customer db i)) =
           filter (\<lambda>a. customer_id a \<noteq> i) (addresses db)"
  using assms by (simp add: delete_customer_def delete_customer_sql_def)

lemma put_address_after_cascade:
  assumes "foreign_keys db" and "get_customer_sql db i = Some c"
    and "\<forall>a \<in> set (addresses db). a_id a = k \<longrightarrow> customer_id a = i"
    and "put_address_errors ab = []"
  shows "fst (put_address (snd (delete_customer db i)) k ab) = not_found ''Address not found''"
proof -
  have "get_address_sql (snd (delete_customer db i)) k = None"
    using assms(1-3)
    by (auto simp: delete_customer_cascades_when_enforced get_address_sql_def find_None_iff)
  then show ?thesis
    using assms(4) by (simp add: put_address_def)
qed

lemma post_customers_keeps_pragma: "foreign_keys (snd (post_customers db b)) = foreign_keys db"
  by (auto simp: post_customers_def Let_def insert_customer_sql_def insert_address_sql_def
      split: sum.splits option.splits prod.splits if_splits)

lemma delete_customer_keeps_pragma: "foreign_keys (snd (delete_customer db i)) = foreign_keys db"
  by (simp add: delete_customer_def delete_customer_sql_def split: option.splits)

text \<open>
  C1. On the connection the server opens, deleting a customer removes the customer row and
  leaves its address rows in place: after the customer is created with an address and
  then deleted, the address row is still stored, and PUT /api/addresses/1 on it answers
  200 with the updated row, where the claim has 404.
\<close>

theorem delete_customer_leaves_addresses:
  "get_customer_sql after_create 1 \<noteq> None \<and>
   map customer_id (addresses after_create) = [1] \<and>
   status (fst (delete_customer after_create 1)) = 200 \<and>
   get_customer_sql after_delete 1 = None \<and>
   addresses after_delete = addresses after_create \<and>
   status (fst (put_address after_delete 1 city_update)) = 200 \<and>
   map city (addresses (snd (put_address after_delete 1 city_update))) = [''Goa'']"
  by code_simp

subsection \<open>Updating a customer with no field\<close>

text \<open>
  C9. For a customer that exists, a PUT whose body has none of first_name, last_name and
  phone_number is answered with status 400 and the message \<open>No fields to update\<close>, and
  the store is left as it was.
\<close>

theorem empty_update_rejected:
  assumes "get_customer_sql db i = Some c"
    and "u_first_name u = None" and "u_last_name u = None" and "u_phone_number u = None"
  shows "put_customer db i u =
           (\<lparr>status = 400, success = False, body = Message ''No fields to update''\<rparr>, db)"
  using assms
  by (simp add: put_customer_def put_customer_errors_def optional_error_def customer_updates_def
      or_empty_def no_fields_def)

theorem empty_update_rejected_witness:
  "get_customer_sql example_db 2 = Some cyd \<and>
   u_first_name empty_update = None \<and> u_last_name empty_update = None \<and>
   u_phone_number empty_update = None \<and>
   put_customer example_db 2 empty_update =
     (\<lparr>status = 400, success = False, body = Message ''No fields to update''\<rparr>, example_db)"
proof -
  have g: "get_customer_sql example_db 2 = Some cyd"
    by (simp add: get_customer_sql_def example_db_def ann_def cyd_def)
  have u: "u_first_name empty_update = None" "u_last_name empty_update = None"
    "u_phone_number empty_update = None"
    by (simp_all add: empty_update_def)
  show ?thesis
    using empty_update_rejected[OF g u] g u by simp
qed

subsection \<open>Phone number conflicts\<close>

lemma catch_unique: "catch_customer unique_error = conflict"
  by (simp add: catch_customer_def unique_error_def)

lemma set_customer_updates:
  "set_customer (fst (customer_updates u)) (snd (customer_updates u)) c =
     Some (c\<lparr>first_name :=
               (if or_empty (map_option trim (u_first_name u)) [] \<noteq> []
                then or_empty (map_option trim (u_first_name u)) [] else first_name c),
             last_name :=
               (if or_empty (map_option trim (u_last_name u)) [] \<noteq> []
                then or_empty (map_option trim (u_last_name u)) [] else last_name c),
             phone_number :=
               (if or_empty (map_option trim (u_phone_number u)) [] \<noteq> []
                then or_empty (map_option trim (u_phone_number u)) [] else phone_number c)\<rparr>)"
  by (simp add: customer_updates_def Let_def)

lemma customer_updates_phone:
  "or_empty (map_option trim (u_phone_number u)) [] \<noteq> [] \<Longrightarrow> fst (customer_updates u) \<noteq> []"
  by (simp add: customer_updates_def Let_def)

text \<open>
  C6. A create request that passes validation and whose trimmed phone number is already
  stored, and an update request that passes validation, names a stored customer and
  carries the phone number of another stored customer, are both answered with status 409
  and the message \<open>Phone number already exists\<close>, which is not the answer of the generic
  failure branch; the store, and with it the row that holds the number, is left as it was.
\<close>

theorem duplicate_phone_conflict:
  "(post_customers_errors b = [] \<and>
    trim (field_value (b_phone_number b)) \<in> set (map phone_number (customers db)) \<longrightarrow>
      post_customers db b = (conflict, db)) \<and>
   (put_customer_errors u = [] \<and> get_customer_sql db i = Some c \<and>
    u_phone_number u = Some p \<and> d \<in> set (customers db) \<and> c_id d \<noteq> i \<and>
    phone_number d = trim p \<longrightarrow>
      put_customer db i u = (conflict, db)) \<and>
   status conflict = 409 \<and> body conflict = Message ''Phone number already exists'' \<and>
   conflict \<noteq> internal_error"
proof -
  have post: "post_customers db b = (conflict, db)"
    if "post_customers_errors b = []"
      and "trim (field_value (b_phone_number b)) \<in> set (map phone_number (customers db))"
    using that by (simp add: post_customers_def insert_customer_sql_def catch_unique)
  have put: "put_customer db i u = (conflict, db)"
    if e: "put_customer_errors u = []" and g: "get_customer_sql db i = Some c"
      and p: "u_phone_number u = Some p" and d: "d \<in> set (customers db)" "c_id d \<noteq> i"
      "phone_number d = trim p"
  proof -
    have len: "isLength 6 20 (trim p)"
      using e p by (auto simp: put_customer_errors_def split: if_splits)
    then have ne: "or_empty (map_option trim (u_phone_number u)) [] = trim p" "trim p \<noteq> []"
      using p by (auto simp: isLength_def or_empty_def)
    obtain us ps where cu: "customer_updates u = (us, ps)"
      by (cases "customer_updates u")
    have us: "us \<noteq> []"
      using customer_updates_phone[of u] ne cu by simp
    obtain c' where sc: "set_customer us ps c = Some c'" and ph: "phone_number c' = trim p"
      using set_customer_updates[of u c] cu ne by simp
    have "phone_number c' \<in> set (map phone_number (filter (\<lambda>d. c_id d \<noteq> i) (customers db)))"
      using d ph by force
    then have "update_customer_sql db us ps i = Inl unique_error"
      using us g sc by (simp add: update_customer_sql_def)
    then show ?thesis
      using e g cu us by (simp add: put_customer_def catch_unique)
  qed
  have "conflict \<noteq> internal_error"
    by (simp add: conflict_def internal_error_def)
  then show ?thesis
    using post put by (simp add: conflict_def)
qed

theorem duplicate_phone_conflict_witness:
  "post_customers_errors ann_again = [] \<and>
   trim (field_value (b_phone_number ann_again)) \<in> set (map phone_number (customers example_db)) \<and>
   post_customers example_db ann_again = (conflict, example_db) \<and>
   put_customer_errors take_ann_phone = [] \<and> get_customer_sql example_db 2 = Some cyd \<and>
   u_phone_number take_ann_phone = Some ''5550001'' \<and> ann \<in> set (customers example_db) \<and>
   c_id ann \<noteq> 2 \<and> phone_number ann = trim ''5550001'' \<and>
   put_customer example_db 2 take_ann_phone = (conflict, example_db) \<and>
   get_customer_sql example_db 1 = Some ann"
proof -
  have a: "post_customers_errors ann_again = []"
    "trim (field_value (b_phone_number ann_again)) \<in> set (map phone_number (customers example_db))"
    by code_simp+
  have b: "put_customer_errors take_ann_phone = []" "get_customer_sql example_db 2 = Some cyd"
    "u_phone_number take_ann_phone = Some ''5550001''" "ann \<in> set (customers example_db)"
    "c_id ann \<noteq> 2" "phone_number ann = trim ''5550001''"
    "get_customer_sql example_db 1 = Some ann"
    by code_simp+
  show ?thesis
    using duplicate_phone_conflict[of ann_again example_db take_ann_phone 2 cyd "''5550001''" ann]
      a b
    by simp
qed

subsection \<open>Inline and dedicated address creation\<close>

lemma inline_address_Some:
  "inline_address a = Some ab \<longleftrightarrow>
     a = Some ab \<and> (\<exists>d. ab_address_details ab = Some d \<and> d \<noteq> [])"
  by (auto simp: inline_address_def or_empty_def split: option.splits if_splits)

lemma post_customers_addresses:
  "addresses (snd (post_customers db b)) =
     (if post_customers_errors b = [] \<and>
         trim (field_value (b_phone_number b)) \<notin> set (map phone_number (customers db))
      then (case inline_address (b_address b) of
              None \<Rightarrow> addresses db
            | Some ab \<Rightarrow>
                addresses db @
                  [\<lparr>a_id = next_rowid (addresses_seq db) (map a_id (addresses db)),
                    customer_id = next_rowid (customers_seq db) (map c_id (customers db)),
                    address_details = or_empty (ab_address_details ab) [],
                    city = or_empty (ab_city ab) [],
                    state = or_empty (ab_state ab) [],
                    pin_code = or_empty (ab_pin_code ab) []\<rparr>])
      else addresses db)"
  by (simp add: post_customers_def Let_def insert_customer_sql_def insert_address_sql_def
      split: option.splits)

lemma or_empty_field: "or_empty v [] = field_value v"
  by (simp add: or_empty_def field_value_def split: option.splits)

text \<open>
  C10. POST /api/customers stores an address row only when the body has an address whose
  address_details is a non-empty string, and then stores one row, for the new customer,
  with the given address_details and with city, state and pin_code each as given or, when
  absent, as the empty string. POST /api/customers/:id/addresses answers 400 and stores
  nothing when any of address_details, city, state and pin_code is missing or blank.
\<close>

theorem inline_address_lenient_dedicated_strict:
  "(addresses (snd (post_customers db b)) \<noteq> addresses db \<longrightarrow>
      (\<exists>ab d. b_address b = Some ab \<and> ab_address_details ab = Some d \<and> d \<noteq> [] \<and>
         addresses (snd (post_customers db b)) =
           addresses db @
             [\<lparr>a_id = next_rowid (addresses_seq db) (map a_id (addresses db)),
               customer_id = next_rowid (customers_seq db) (map c_id (customers db)),
               address_details = d,
               city = (case ab_city ab of None \<Rightarrow> [] | Some s \<Rightarrow> s),
               state = (case ab_state ab of None \<Rightarrow> [] | Some s \<Rightarrow> s),
               pin_code = (case ab_pin_code ab of None \<Rightarrow> [] | Some s \<Rightarrow> s)\<rparr>])) \<and>
   (trim (field_value (ab_address_details r)) = [] \<or> trim (field_value (ab_city r)) = [] \<or>
    trim (field_value (ab_state r)) = [] \<or> trim (field_value (ab_pin_code r)) = [] \<longrightarrow>
      status (fst (post_customer_addresses db i r)) = 400 \<and>
      snd (post_customer_addresses db i r) = db)"
proof -
  have inline: "\<exists>ab d. b_address b = Some ab \<and> ab_address_details ab = Some d \<and> d \<noteq> [] \<and>
         addresses (snd (post_customers db b)) =
           addresses db @
             [\<lparr>a_id = next_rowid (addresses_seq db) (map a_id (addresses db)),
               customer_id = next_rowid (customers_seq db) (map c_id (customers db)),
               address_details = d,
               city = (case ab_city ab of None \<Rightarrow> [] | Some s \<Rightarrow> s),
               state = (case ab_state ab of None \<Rightarrow> [] | Some s \<Rightarrow> s),
               pin_code = (case ab_pin_code ab of None \<Rightarrow> [] | Some s \<Rightarrow> s)\<rparr>]"
    if ne: "addresses (snd (post_customers db b)) \<noteq> addresses db"
  proof -
    from ne obtain ab where ia: "inline_address (b_address b) = Some ab"
      and ok: "post_customers_errors b = []"
        "trim (field_value (b_phone_number b)) \<notin> set (map phone_number (customers db))"
      by (auto simp: post_customers_addresses split: if_splits option.splits)
    from ia obtain d where d: "b_address b = Some ab" "ab_address_details ab = Some d" "d \<noteq> []"
      by (auto simp: inline_address_Some)
    have "addresses (snd (post_customers db b)) =
           addresses db @
             [\<lparr>a_id = next_rowid (addresses_seq db) (map a_id (addresses db)),
               customer_id = next_rowid (customers_seq db) (map c_id (customers db)),
               address_details = d,
               city = (case ab_city ab of None \<Rightarrow> [] | Some s \<Rightarrow> s),
               state = (case ab_state ab of None \<Rightarrow> [] | Some s \<Rightarrow> s),
               pin_code = (case ab_pin_code ab of None \<Rightarrow> [] | Some s \<Rightarrow> s)\<rparr>]"
      using ia ok d
      by (simp add: post_customers_addresses or_empty_field field_value_def)
    then show ?thesis
      using d by blast
  qed
  have strict: "status (fst (post_customer_addresses db i r)) = 400 \<and>
      snd (post_customer_addresses db i r) = db"
    if "trim (field_value (ab_address_details r)) = [] \<or> trim (field_value (ab_city r)) = [] \<or>
        trim (field_value (ab_state r)) = [] \<or> trim (field_value (ab_pin_code r)) = []"
  proof -
    have "post_address_errors r \<noteq> []"
      using that by (auto simp: post_address_errors_def required_error_def)
    then show ?thesis
      by (simp add: post_customer_addresses_def bad_request_def)
  qed
  show ?thesis
    using inline strict by blast
qed

theorem inline_address_lenient_dedicated_strict_witness:
  "addresses (snd (post_customers example_db dee_body)) \<noteq> addresses example_db \<and>
   map city (addresses (snd (post_customers example_db dee_body))) = [''Pune'', ''Panaji'', []] \<and>
   map pin_code (addresses (snd (post_customers example_db dee_body))) =
     [''411001'', ''403001'', []] \<and>
   trim (field_value (ab_city blank_city_address)) = [] \<and>
   status (fst (post_customer_addresses example_db 1 blank_city_address)) = 400 \<and>
   snd (post_customer_addresses example_db 1 blank_city_address) = example_db"
proof -
  have n: "addresses (snd (post_customers example_db dee_body)) \<noteq> addresses example_db"
    by code_simp
  have b: "b_address dee_body =
      Some \<lparr>ab_address_details = Some ''9 Low Rd'', ab_city = None, ab_state = Some ''KA'',
            ab_pin_code = None\<rparr>"
    by (simp add: dee_body_def)
  have e: "map city (addresses example_db) = [''Pune'', ''Panaji'']"
    "map pin_code (addresses example_db) = [''411001'', ''403001'']"
    by code_simp+
  have t: "trim (field_value (ab_city blank_city_address)) = []"
    by code_simp
  show ?thesis
    using inline_address_lenient_dedicated_strict[of example_db dee_body blank_city_address 1]
      n b e t
    by auto
qed

end
